theory Spec2Isabelle
  imports Main
begin

section \<open>JavaScript values\<close>

text \<open>
  An optional field of a message or session, as the runtime sees it: absent
  (\<open>undefined\<close>), \<open>null\<close>, or a value.
\<close>

datatype 'a maybe = Undefined | Null | Def 'a

text \<open>The nullish coalescing operator \<open>a ?? b\<close>.\<close>

fun orElse :: "'a maybe \<Rightarrow> 'a \<Rightarrow> 'a" where
  "orElse (Def a) b = a"
| "orElse Undefined b = b"
| "orElse Null b = b"

text \<open>A value interpolated in a template literal without a fallback.\<close>

fun template :: "string maybe \<Rightarrow> string" where
  "template (Def s) = s"
| "template Undefined = ''undefined''"
| "template Null = ''null''"

text \<open>
  \<open>String.prototype.trim\<close> on the characters a \<open>string\<close> of HOL can hold:
  tab, line feed, vertical tab, form feed, carriage return and space are stripped
  from both ends.
\<close>

definition isWhiteSpace :: "char \<Rightarrow> bool" where
  "isWhiteSpace c = (c \<in> set [CHR 0x09, CHR 0x0A, CHR 0x0B, CHR 0x0C, CHR 0x0D, CHR 0x20])"

definition trim :: "string \<Rightarrow> string" where
  "trim s = rev (dropWhile isWhiteSpace (rev (dropWhile isWhiteSpace s)))"

text \<open>\<open>x?.trim() === ''\<close>: false when \<open>x\<close> is undefined or null.\<close>

fun trimIsEmpty :: "string maybe \<Rightarrow> bool" where
  "trimIsEmpty (Def s) = (trim s = [])"
| "trimIsEmpty Undefined = False"
| "trimIsEmpty Null = False"

text \<open>\<open>x === undefined || x === null || x.trim() === ''\<close>.\<close>

fun missingOrBlank :: "string maybe \<Rightarrow> bool" where
  "missingOrBlank (Def s) = (trim s = [])"
| "missingOrBlank Undefined = True"
| "missingOrBlank Null = True"

text \<open>\<open>x === undefined || x === null\<close> (also \<open>x == null\<close>).\<close>

fun nullish :: "'a maybe \<Rightarrow> bool" where
  "nullish (Def a) = False"
| "nullish Undefined = True"
| "nullish Null = True"

section \<open>The data model\<close>

type_synonym VerifiableCertificate = string

record RequestedCertificateSet =
  certifiers :: "string list"
  types :: "(string \<times> string list) list"

record AuthMessage =
  version :: "string maybe"
  messageType :: "string maybe"
  identityKey :: "string maybe"
  nonce :: "string maybe"
  initialNonce :: "string maybe"
  yourNonce :: "string maybe"
  certificates :: "VerifiableCertificate list maybe"
  requestedCertificates :: "RequestedCertificateSet maybe"
  payload :: "nat list maybe"
  signature :: "nat list maybe"

record PeerSession =
  isAuthenticated :: bool
  sessionNonce :: "string maybe"
  peerNonce :: "string maybe"
  peerIdentityKey :: "string maybe"

definition AUTH_VERSION :: string where
  "AUTH_VERSION = ''0.1''"

definition authProtocolID :: "nat \<times> string" where
  "authProtocolID = (2, ''auth message signature'')"

definition emptyRequestedCertificateSet :: RequestedCertificateSet where
  "emptyRequestedCertificateSet = \<lparr>certifiers = [], types = []\<rparr>"

section \<open>The session manager\<close>

text \<open>
  \<open>SessionManager.ts\<close> is not among the sources; its operations are modelled
  from the spec. The store is the list of its sessions, the most recent first.
\<close>

type_synonym SessionManager = "PeerSession list"

text \<open>
  Modelled from the spec: the nonce indices of \<open>SessionManager\<close> (missing from
  the sources), by the session's \<open>sessionNonce\<close> and \<open>peerNonce\<close>.
\<close>

definition holdsNonce :: "string \<Rightarrow> PeerSession \<Rightarrow> bool" where
  "holdsNonce key s = (sessionNonce s = Def key \<or> peerNonce s = Def key)"

text \<open>
  Modelled from the spec: the identity index of \<open>SessionManager\<close> (missing from
  the sources), by the session's \<open>peerIdentityKey\<close>.
\<close>

definition ofPeer :: "string \<Rightarrow> PeerSession \<Rightarrow> bool" where
  "ofPeer key s = (peerIdentityKey s = Def key)"

text \<open>
  Modelled from the spec: \<open>SessionManager.addSession\<close> (missing from the
  sources) inserts the session.
\<close>

definition addSession :: "PeerSession \<Rightarrow> SessionManager \<Rightarrow> SessionManager" where
  "addSession s sm = s # sm"

text \<open>
  Modelled from the spec: \<open>SessionManager.getSession\<close> (missing from the
  sources) looks the key up in any of the three indices and returns the session
  or an absent marker. A lookup by nonce returns the session holding that nonce;
  a lookup by \<open>peerIdentityKey\<close> returns the most recent authenticated session
  for that peer, and a session of that peer not yet authenticated when there is
  no authenticated one.
\<close>

definition getSession :: "string \<Rightarrow> SessionManager \<Rightarrow> PeerSession option" where
  "getSession key sm =
     (case find (holdsNonce key) sm of
        Some s \<Rightarrow> Some s
      | None \<Rightarrow>
          (case find (\<lambda>s. ofPeer key s \<and> isAuthenticated s) sm of
             Some s \<Rightarrow> Some s
           | None \<Rightarrow> find (ofPeer key) sm))"

text \<open>
  Modelled from the spec: \<open>SessionManager.updateSession\<close> (missing from the
  sources) replaces the existing session, the one with the same
  \<open>sessionNonce\<close>.
\<close>

definition updateSession :: "PeerSession \<Rightarrow> SessionManager \<Rightarrow> SessionManager" where
  "updateSession s sm = map (\<lambda>t. if sessionNonce t = sessionNonce s then s else t) sm"

text \<open>A lookup with a key that may be \<open>null\<close> at run time finds nothing for it.\<close>

fun getSessionFor :: "string maybe \<Rightarrow> SessionManager \<Rightarrow> PeerSession option" where
  "getSessionFor (Def key) sm = getSession key sm"
| "getSessionFor Undefined sm = None"
| "getSessionFor Null sm = None"

section \<open>Collaborators\<close>

text \<open>
  The wallet, the nonce and certificate helpers, the transport and the byte
  utilities are outside the sources; the Peer is modelled over any choice of them.
  \<open>createNonce\<close> and \<open>Random32\<close> give the n-th value drawn. \<open>send\<close> and
  \<open>validateCertificates\<close> give the message of the error they raise, if they
  raise; the other calls are taken to return.
\<close>

record Env =
  createNonce :: "nat \<Rightarrow> string"
  verifyNonce :: "string maybe \<Rightarrow> bool"
  createSignature :: "nat list \<Rightarrow> nat \<times> string \<Rightarrow> string \<Rightarrow> string \<Rightarrow> nat list"
  verifySignature :: "nat list \<Rightarrow> nat list \<Rightarrow> nat \<times> string \<Rightarrow> string \<Rightarrow> string \<Rightarrow> bool"
  getPublicKey :: string
  getVerifiableCertificates ::
    "RequestedCertificateSet \<Rightarrow> string maybe \<Rightarrow> VerifiableCertificate list"
  validateCertificates :: "AuthMessage \<Rightarrow> RequestedCertificateSet \<Rightarrow> string option"
  send :: "AuthMessage \<Rightarrow> string option"
  Random32 :: "nat \<Rightarrow> nat list"
  toBase64 :: "nat list \<Rightarrow> string"
  toArrayBase64 :: "string \<Rightarrow> nat list"
  jsonCertificates :: "VerifiableCertificate list \<Rightarrow> nat list"
  jsonRequestedCertificates :: "RequestedCertificateSet option \<Rightarrow> nat list"

section \<open>The Peer\<close>

text \<open>
  What a processor leaves behind that is not a field of the Peer: messages handed
  to the transport, lines written to the console, and calls of the user's
  callbacks (each with the ID it was registered under and its arguments).
\<close>

datatype effect =
    Sent AuthMessage
  | ConsoleError string
  | GeneralMessageReceived nat "string maybe" "nat list"
  | CertificatesReceived nat "string maybe" "VerifiableCertificate list"
  | CertificatesRequested nat "string maybe" RequestedCertificateSet

text \<open>
  A call of \<open>waitForInitialResponse\<close> creates a promise and a timer; both
  closures it registers capture the same \<open>callbackID\<close>.
\<close>

datatype timer = Armed nat | Cleared | Fired

datatype promise = Pending | Resolved string | Rejected string

record wait =
  waitCallbackID :: nat
  waitTimer :: timer
  waitPromise :: promise

text \<open>
  The callback maps keep insertion order, as a \<open>Map\<close> does. A user callback is
  opaque, so its map holds the IDs only; an initial-response entry holds the
  \<open>sessionNonce\<close> it was registered with and the wait whose closure it is.
\<close>

record Peer =
  sessionManager :: SessionManager
  certificatesToRequest :: RequestedCertificateSet
  onGeneralMessageReceivedCallbacks :: "nat list"
  onCertificatesReceivedCallbacks :: "nat list"
  onCertificateRequestReceivedCallbacks :: "nat list"
  onInitialResponseReceivedCallbacks :: "(nat \<times> string \<times> nat) list"
  callbackIdCounter :: nat
  autoPersistLastSession :: bool
  lastInteractedWithPeer :: "string maybe"
  waits :: "wait list"
  effects :: "effect list"
  noncesMinted :: nat
  randomDrawn :: nat

text \<open>
  How a call of an async method ends its turn: it returns, it throws an
  \<open>Error\<close> with a message, or it is suspended on the promise of a wait.
\<close>

datatype 'a completion = Returned 'a | Thrown string | Suspended nat

definition perform :: "effect list \<Rightarrow> Peer \<Rightarrow> Peer" where
  "perform es p = p\<lparr>effects := effects p @ es\<rparr>"

subsection \<open>The callback registry\<close>

definition mapSet :: "nat \<Rightarrow> 'v \<Rightarrow> (nat \<times> 'v) list \<Rightarrow> (nat \<times> 'v) list" where
  "mapSet k v kvs =
     (if k \<in> fst ` set kvs then map (\<lambda>(k', v'). if k' = k then (k', v) else (k', v')) kvs
      else kvs @ [(k, v)])"

definition mapDelete :: "nat \<Rightarrow> (nat \<times> 'v) list \<Rightarrow> (nat \<times> 'v) list" where
  "mapDelete k kvs = filter (\<lambda>(k', v'). k' \<noteq> k) kvs"

definition idSet :: "nat \<Rightarrow> nat list \<Rightarrow> nat list" where
  "idSet k ks = (if k \<in> set ks then ks else ks @ [k])"

definition listenForGeneralMessages :: "Peer \<Rightarrow> nat \<times> Peer" where
  "listenForGeneralMessages p =
     (let callbackID = callbackIdCounter p
      in (callbackID,
          p\<lparr>callbackIdCounter := callbackID + 1,
            onGeneralMessageReceivedCallbacks :=
              idSet callbackID (onGeneralMessageReceivedCallbacks p)\<rparr>))"

definition stopListeningForGeneralMessages :: "nat \<Rightarrow> Peer \<Rightarrow> Peer" where
  "stopListeningForGeneralMessages callbackID p =
     p\<lparr>onGeneralMessageReceivedCallbacks :=
         removeAll callbackID (onGeneralMessageReceivedCallbacks p)\<rparr>"

definition listenForCertificatesReceived :: "Peer \<Rightarrow> nat \<times> Peer" where
  "listenForCertificatesReceived p =
     (let callbackID = callbackIdCounter p
      in (callbackID,
          p\<lparr>callbackIdCounter := callbackID + 1,
            onCertificatesReceivedCallbacks :=
              idSet callbackID (onCertificatesReceivedCallbacks p)\<rparr>))"

definition stopListeningForCertificatesReceived :: "nat \<Rightarrow> Peer \<Rightarrow> Peer" where
  "stopListeningForCertificatesReceived callbackID p =
     p\<lparr>onCertificatesReceivedCallbacks :=
         removeAll callbackID (onCertificatesReceivedCallbacks p)\<rparr>"

definition listenForCertificatesRequested :: "Peer \<Rightarrow> nat \<times> Peer" where
  "listenForCertificatesRequested p =
     (let callbackID = callbackIdCounter p
      in (callbackID,
          p\<lparr>callbackIdCounter := callbackID + 1,
            onCertificateRequestReceivedCallbacks :=
              idSet callbackID (onCertificateRequestReceivedCallbacks p)\<rparr>))"

definition stopListeningForCertificatesRequested :: "nat \<Rightarrow> Peer \<Rightarrow> Peer" where
  "stopListeningForCertificatesRequested callbackID p =
     p\<lparr>onCertificateRequestReceivedCallbacks :=
         removeAll callbackID (onCertificateRequestReceivedCallbacks p)\<rparr>"

definition listenForInitialResponse :: "string \<Rightarrow> nat \<Rightarrow> Peer \<Rightarrow> nat \<times> Peer" where
  "listenForInitialResponse sessionNonce' callback p =
     (let callbackID = callbackIdCounter p
      in (callbackID,
          p\<lparr>callbackIdCounter := callbackID + 1,
            onInitialResponseReceivedCallbacks :=
              mapSet callbackID (sessionNonce', callback)
                (onInitialResponseReceivedCallbacks p)\<rparr>))"

definition stopListeningForInitialResponses :: "nat \<Rightarrow> Peer \<Rightarrow> Peer" where
  "stopListeningForInitialResponses callbackID p =
     p\<lparr>onInitialResponseReceivedCallbacks :=
         mapDelete callbackID (onInitialResponseReceivedCallbacks p)\<rparr>"

subsection \<open>Waiting for the initial response\<close>

definition modifyWait :: "nat \<Rightarrow> (wait \<Rightarrow> wait) \<Rightarrow> Peer \<Rightarrow> Peer" where
  "modifyWait w f p =
     (if w < length (waits p) then p\<lparr>waits := (waits p)[w := f (waits p ! w)]\<rparr> else p)"

text \<open>\<open>clearTimeout\<close>: a timer that has not fired yet never will.\<close>

definition clearTimeout :: "nat \<Rightarrow> Peer \<Rightarrow> Peer" where
  "clearTimeout w p =
     modifyWait w
       (\<lambda>x. case waitTimer x of Armed d \<Rightarrow> x\<lparr>waitTimer := Cleared\<rparr> | _ \<Rightarrow> x) p"

text \<open>\<open>resolve\<close> and \<open>reject\<close> settle a promise once; later calls do nothing.\<close>

definition resolve :: "nat \<Rightarrow> string \<Rightarrow> Peer \<Rightarrow> Peer" where
  "resolve w v p =
     modifyWait w
       (\<lambda>x. case waitPromise x of Pending \<Rightarrow> x\<lparr>waitPromise := Resolved v\<rparr> | _ \<Rightarrow> x) p"

definition reject :: "nat \<Rightarrow> string \<Rightarrow> Peer \<Rightarrow> Peer" where
  "reject w e p =
     modifyWait w
       (\<lambda>x. case waitPromise x of Pending \<Rightarrow> x\<lparr>waitPromise := Rejected e\<rparr> | _ \<Rightarrow> x) p"

text \<open>
  The listener that \<open>waitForInitialResponse\<close> registers, for the wait \<open>w\<close>
  with the callback ID \<open>callbackID\<close>.
\<close>

definition initialResponseCallback :: "nat \<Rightarrow> nat \<Rightarrow> string \<Rightarrow> Peer \<Rightarrow> Peer" where
  "initialResponseCallback w callbackID sessionNonce' p =
     resolve w sessionNonce'
       (stopListeningForInitialResponses callbackID (clearTimeout w p))"

text \<open>
  The function given to \<open>setTimeout\<close>. The runtime calls it when the delay has
  passed, and only if the timer was not cleared before.
\<close>

definition timeoutCallback :: "nat \<Rightarrow> nat \<Rightarrow> Peer \<Rightarrow> Peer" where
  "timeoutCallback w callbackID p =
     reject w ''Initial response timed out.''
       (stopListeningForInitialResponses callbackID p)"

definition timerFires :: "nat \<Rightarrow> Peer \<Rightarrow> Peer" where
  "timerFires w p =
     (if w < length (waits p) then
        (case waitTimer (waits p ! w) of
           Armed d \<Rightarrow>
             timeoutCallback w (waitCallbackID (waits p ! w))
               (modifyWait w (\<lambda>x. x\<lparr>waitTimer := Fired\<rparr>) p)
         | _ \<Rightarrow> p)
      else p)"

definition waitForInitialResponse :: "string \<Rightarrow> nat option \<Rightarrow> Peer \<Rightarrow> nat \<times> Peer" where
  "waitForInitialResponse sessionNonce' maxWaitTime p =
     (let w = length (waits p);
          (callbackID, p1) = listenForInitialResponse sessionNonce' w p
      in (w,
          p1\<lparr>waits := waits p1 @
                [\<lparr>waitCallbackID = callbackID,
                  waitTimer = Armed (case maxWaitTime of None \<Rightarrow> 10000 | Some t \<Rightarrow> t),
                  waitPromise = Pending\<rparr>]\<rparr>))"

subsection \<open>Outbound paths\<close>

definition transportSend :: "Env \<Rightarrow> AuthMessage \<Rightarrow> Peer \<Rightarrow> string option \<times> Peer" where
  "transportSend env m p =
     (case send env m of
        None \<Rightarrow> (None, perform [Sent m] p)
      | Some e \<Rightarrow> (Some e, p))"

text \<open>
  \<open>initiateHandshake\<close> ends its turn suspended on the wait it has set up
  (\<open>Inr\<close>, with the wait), or throws what the transport has thrown (\<open>Inl\<close>).
\<close>

definition initiateHandshake ::
  "Env \<Rightarrow> string maybe \<Rightarrow> nat option \<Rightarrow> Peer \<Rightarrow> (string + nat) \<times> Peer" where
  "initiateHandshake env identityKey' maxWaitTime p =
     (let sessionNonce' = createNonce env (noncesMinted p);
          p1 = p\<lparr>noncesMinted := noncesMinted p + 1,
                 sessionManager :=
                   addSession
                     \<lparr>isAuthenticated = False, sessionNonce = Def sessionNonce',
                      peerNonce = Undefined, peerIdentityKey = identityKey'\<rparr>
                     (sessionManager p)\<rparr>;
          initialRequest =
            \<lparr>version = Def AUTH_VERSION, messageType = Def ''initialRequest'',
             identityKey = Def (getPublicKey env), nonce = Undefined,
             initialNonce = Def sessionNonce', yourNonce = Undefined,
             certificates = Undefined,
             requestedCertificates = Def (certificatesToRequest p1),
             payload = Undefined, signature = Undefined\<rparr>
      in case transportSend env initialRequest p1 of
           (Some e, p2) \<Rightarrow> (Inl e, p2)
         | (None, p2) \<Rightarrow>
             (case waitForInitialResponse sessionNonce'
                     (Some (case maxWaitTime of None \<Rightarrow> 10000 | Some t \<Rightarrow> t)) p2 of
                (w, p3) \<Rightarrow> (Inr w, p3)))"

text \<open>
  \<open>getAuthenticatedSession\<close> up to the end of its first turn: it returns the
  authenticated session it has found, or starts a handshake and is suspended.
\<close>

definition getAuthenticatedSession ::
  "Env \<Rightarrow> string maybe \<Rightarrow> nat option \<Rightarrow> Peer \<Rightarrow> PeerSession completion \<times> Peer" where
  "getAuthenticatedSession env identityKey' maxWaitTime p =
     (case (case getSessionFor identityKey' (sessionManager p) of
              None \<Rightarrow> None
            | Some s \<Rightarrow> if isAuthenticated s then Some s else None) of
        Some s \<Rightarrow> (Returned s, p)
      | None \<Rightarrow>
          (case initiateHandshake env
                  (case identityKey' of Def k \<Rightarrow> Def k | _ \<Rightarrow> Undefined) maxWaitTime p of
             (Inl e, p1) \<Rightarrow> (Thrown e, p1)
           | (Inr w, p1) \<Rightarrow> (Suspended w, p1)))"

definition sendCertificateResponse ::
  "Env \<Rightarrow> string \<Rightarrow> VerifiableCertificate list \<Rightarrow> Peer \<Rightarrow> unit completion \<times> Peer" where
  "sendCertificateResponse env verifierIdentityKey certificates' p =
     (case getAuthenticatedSession env (Def verifierIdentityKey) None p of
        (Thrown e, p1) \<Rightarrow> (Thrown e, p1)
      | (Suspended w, p1) \<Rightarrow> (Suspended w, p1)
      | (Returned peerSession, p1) \<Rightarrow>
          (let requestNonce = toBase64 env (Random32 env (randomDrawn p1));
               p2 = p1\<lparr>randomDrawn := randomDrawn p1 + 1\<rparr>;
               signature' =
                 createSignature env (jsonCertificates env certificates') authProtocolID
                   (requestNonce @ '' '' @ orElse (peerNonce peerSession) ''unknown'')
                   (orElse (peerIdentityKey peerSession) ''unknown'');
               certificateResponse =
                 \<lparr>version = Def AUTH_VERSION, messageType = Def ''certificateResponse'',
                  identityKey = Def (getPublicKey env), nonce = Def requestNonce,
                  initialNonce = Def (orElse (sessionNonce peerSession) ''unknown''),
                  yourNonce = Def (orElse (peerNonce peerSession) ''unknown''),
                  certificates = Def certificates', requestedCertificates = Undefined,
                  payload = Undefined, signature = Def signature'\<rparr>
           in case transportSend env certificateResponse p2 of
                (None, p3) \<Rightarrow> (Returned (), p3)
              | (Some e, p3) \<Rightarrow>
                  (Thrown (''Failed to send certificate response message to peer '' @
                           orElse (peerIdentityKey peerSession) ''unknown'' @ '': '' @ e),
                   p3)))"

subsection \<open>Processors of inbound messages\<close>

definition requestsCertifiers :: "RequestedCertificateSet maybe \<Rightarrow> bool" where
  "requestsCertifiers r = (case r of Def rc \<Rightarrow> length (certifiers rc) > 0 | _ \<Rightarrow> False)"

definition processInitialRequest :: "Env \<Rightarrow> AuthMessage \<Rightarrow> Peer \<Rightarrow> unit completion \<times> Peer" where
  "processInitialRequest env message p =
     (if trimIsEmpty (identityKey message) \<or> trimIsEmpty (initialNonce message) then
        (Thrown ''Missing required fields in initialResponse message.'', p)
      else
        (let sessionNonce' = createNonce env (noncesMinted p);
             p1 = p\<lparr>noncesMinted := noncesMinted p + 1,
                    sessionManager :=
                      addSession
                        \<lparr>isAuthenticated = True, sessionNonce = Def sessionNonce',
                         peerNonce = initialNonce message,
                         peerIdentityKey = identityKey message\<rparr>
                        (sessionManager p)\<rparr>;
             (certificatesToInclude, p2) =
               (if requestsCertifiers (requestedCertificates message) then
                  (if length (onCertificateRequestReceivedCallbacks p1) > 0 then
                     (Undefined,
                      perform
                        (map (\<lambda>callback.
                                CertificatesRequested callback (identityKey message)
                                  (orElse (requestedCertificates message)
                                     emptyRequestedCertificateSet))
                           (onCertificateRequestReceivedCallbacks p1))
                        p1)
                   else
                     (Def (getVerifiableCertificates env
                             (orElse (requestedCertificates message)
                                emptyRequestedCertificateSet)
                             (identityKey message)),
                      p1))
                else (Undefined, p1));
             signature' =
               createSignature env
                 (toArrayBase64 env (orElse (initialNonce message) [] @ sessionNonce'))
                 authProtocolID
                 (orElse (initialNonce message) ''unknown'' @ '' '' @ sessionNonce')
                 (orElse (identityKey message) ''unknown'');
             initialResponseMessage =
               \<lparr>version = Def AUTH_VERSION, messageType = Def ''initialResponse'',
                identityKey = Def (getPublicKey env), nonce = Undefined,
                initialNonce = Def sessionNonce',
                yourNonce = Def (orElse (initialNonce message) ''unknown''),
                certificates = certificatesToInclude,
                requestedCertificates = Def (certificatesToRequest p2),
                payload = Undefined, signature = Def signature'\<rparr>;
             p3 = (if lastInteractedWithPeer p2 = Undefined
                   then p2\<lparr>lastInteractedWithPeer := identityKey message\<rparr> else p2)
         in case transportSend env initialResponseMessage p3 of
              (None, p4) \<Rightarrow> (Returned (), p4)
            | (Some e, p4) \<Rightarrow> (Thrown e, p4)))"

text \<open>
  The loop over \<open>onInitialResponseReceivedCallbacks\<close>: an entry registered with
  the session's nonce has its callback called with that nonce. A callback
  deletes its own entry only, so the loop visits the entries that were in the map
  when it started.
\<close>

definition fireInitialResponseCallbacks :: "PeerSession \<Rightarrow> Peer \<Rightarrow> Peer" where
  "fireInitialResponseCallbacks peerSession p =
     fold (\<lambda>(callbackID, entryNonce, w) q.
             if sessionNonce peerSession \<noteq> Undefined
                \<and> Def entryNonce = sessionNonce peerSession
             then initialResponseCallback w callbackID entryNonce q
             else q)
       (onInitialResponseReceivedCallbacks p) p"

definition processInitialResponse :: "Env \<Rightarrow> AuthMessage \<Rightarrow> Peer \<Rightarrow> unit completion \<times> Peer" where
  "processInitialResponse env message p =
     (if yourNonce message = Undefined then
        (Thrown ''The nonce is missing from the message.'', p)
      else if \<not> verifyNonce env (yourNonce message) then
        (Thrown (''Initial response nonce verification failed from peer: '' @
                 orElse (identityKey message) ''unknown''), p)
      else
        (case getSessionFor (yourNonce message) (sessionManager p) of
           None \<Rightarrow>
             (Thrown (''Peer session not found for peer: '' @
                      orElse (identityKey message) ''unknown''), p)
         | Some found \<Rightarrow>
             if \<not> verifySignature env
                    (toArrayBase64 env
                       (orElse (sessionNonce found) [] @ orElse (initialNonce message) []))
                    (orElse (signature message) [])
                    authProtocolID
                    (orElse (sessionNonce found) [] @ '' '' @
                     orElse (initialNonce message) [])
                    (orElse (identityKey message) [])
             then
               (Thrown (''Unable to verify initial response signature for peer: '' @
                        orElse (identityKey message) ''unknown''), p)
             else
               (let peerSession =
                      found\<lparr>peerNonce := initialNonce message,
                            peerIdentityKey := identityKey message,
                            isAuthenticated := True\<rparr>;
                    p1 = p\<lparr>sessionManager := updateSession peerSession (sessionManager p)\<rparr>
                in if length (certifiers (certificatesToRequest p1)) > 0
                      \<and> length (orElse (certificates message) []) > 0
                   then
                     (case validateCertificates env message (certificatesToRequest p1) of
                        Some e \<Rightarrow> (Thrown e, p1)
                      | None \<Rightarrow>
                          (let p2 =
                                 (if \<not> nullish (certificates message)
                                     \<and> length (orElse (certificates message) []) > 0
                                  then
                                    perform
                                      (map (\<lambda>callback.
                                              CertificatesReceived callback (identityKey message)
                                                (orElse (certificates message) []))
                                         (onCertificatesReceivedCallbacks p1))
                                      p1
                                  else p1);
                               p3 = (if \<not> missingOrBlank (identityKey message)
                                     then p2\<lparr>lastInteractedWithPeer := identityKey message\<rparr>
                                     else p2);
                               p4 = fireInitialResponseCallbacks peerSession p3
                           in if requestsCertifiers (requestedCertificates message) then
                                (if length (onCertificateRequestReceivedCallbacks p4) > 0 then
                                   (Returned (),
                                    perform
                                      (map (\<lambda>callback.
                                              CertificatesRequested callback
                                                (Def (orElse (identityKey message) ''unknown''))
                                                (orElse (requestedCertificates message)
                                                   emptyRequestedCertificateSet))
                                         (onCertificateRequestReceivedCallbacks p4))
                                      p4)
                                 else
                                   sendCertificateResponse env
                                     (orElse (identityKey message) ''unknown'')
                                     (getVerifiableCertificates env
                                        (orElse (requestedCertificates message)
                                           emptyRequestedCertificateSet)
                                        (Def (orElse (identityKey message) ''unknown'')))
                                     p4)
                              else (Returned (), p4)))
                   else (Returned (), p1))))"

definition processCertificateRequest :: "Env \<Rightarrow> AuthMessage \<Rightarrow> Peer \<Rightarrow> unit completion \<times> Peer" where
  "processCertificateRequest env message p =
     (if missingOrBlank (yourNonce message) then
        (Thrown (''Invalid message: Missing 'yourNonce' from '' @
                 orElse (identityKey message) ''unknown''), p)
      else if \<not> verifyNonce env (yourNonce message) then
        (Thrown (''Unable to verify nonce for certificate request message from: '' @
                 orElse (identityKey message) ''unknown''), p)
      else
        (case getSessionFor (yourNonce message) (sessionManager p) of
           None \<Rightarrow>
             (Thrown (''Peer session not found for peer: '' @
                      orElse (identityKey message) ''unknown''), p)
         | Some peerSession \<Rightarrow>
             if nullish (signature message) then
               (Thrown (''Invalid message: Missing 'signature' from '' @
                        orElse (identityKey message) ''unknown''), p)
             else if missingOrBlank (nonce message) then
               (Thrown (''Invalid message: Missing 'nonce' from '' @
                        orElse (identityKey message) ''unknown''), p)
             else if missingOrBlank (sessionNonce peerSession) then
               (Thrown (''Invalid session: Missing 'sessionNonce' for peer '' @
                        orElse (identityKey message) ''unknown''), p)
             else if missingOrBlank (peerIdentityKey peerSession) then
               (Thrown (''Invalid session: Missing 'peerIdentityKey' for peer '' @
                        orElse (identityKey message) ''unknown''), p)
             else if \<not> verifySignature env
                         (jsonRequestedCertificates env
                            (case requestedCertificates message of
                               Def rc \<Rightarrow> Some rc | _ \<Rightarrow> None))
                         (orElse (signature message) [])
                         authProtocolID
                         (template (nonce message) @ '' '' @
                          template (sessionNonce peerSession))
                         (template (peerIdentityKey peerSession))
             then
               (Thrown (''Invalid signature in certificate request message from '' @
                        orElse (peerIdentityKey peerSession) ''unknown''), p)
             else if requestsCertifiers (requestedCertificates message)
                     \<and> \<not> missingOrBlank (identityKey message)
             then
               (if length (onCertificateRequestReceivedCallbacks p) > 0 then
                  (Returned (),
                   perform
                     (map (\<lambda>callback.
                             CertificatesRequested callback (identityKey message)
                               (orElse (requestedCertificates message)
                                  emptyRequestedCertificateSet))
                        (onCertificateRequestReceivedCallbacks p))
                     p)
                else
                  sendCertificateResponse env (template (identityKey message))
                    (getVerifiableCertificates env
                       (orElse (requestedCertificates message) emptyRequestedCertificateSet)
                       (identityKey message))
                    p)
             else (Returned (), p)))"

definition processCertificateResponse :: "Env \<Rightarrow> AuthMessage \<Rightarrow> Peer \<Rightarrow> unit completion \<times> Peer" where
  "processCertificateResponse env message p =
     (if missingOrBlank (yourNonce message) then
        (Thrown (''Invalid message: Missing 'yourNonce' from '' @
                 orElse (identityKey message) ''unknown peer'' @ ''!''), p)
      else if \<not> verifyNonce env (yourNonce message) then
        (Thrown (''Unable to verify nonce for certificate response from: '' @
                 orElse (identityKey message) ''unknown peer'' @ ''!''), p)
      else
        (case getSessionFor (yourNonce message) (sessionManager p) of
           None \<Rightarrow>
             (Thrown (''Peer session not found for nonce: '' @ template (yourNonce message)), p)
         | Some peerSession \<Rightarrow>
             if missingOrBlank (sessionNonce peerSession) then
               (Thrown (''Invalid peer session: Missing 'sessionNonce' for '' @
                        orElse (identityKey message) ''unknown peer''), p)
             else if nullish (signature message) then
               (Thrown (''Invalid message: Missing 'signature' from '' @
                        orElse (identityKey message) ''unknown peer'' @ ''!''), p)
             else if \<not> verifySignature env
                         (jsonCertificates env (orElse (certificates message) []))
                         (orElse (signature message) [])
                         authProtocolID
                         (orElse (nonce message) ''unknown'' @ '' '' @
                          orElse (sessionNonce peerSession) ''unknown'')
                         (orElse (identityKey message) ''unknown'')
             then
               (Thrown (''Unable to verify certificate response signature for peer: '' @
                        orElse (identityKey message) ''unknown peer''), p)
             else
               (case validateCertificates env message
                       (orElse (requestedCertificates message) emptyRequestedCertificateSet) of
                  Some e \<Rightarrow> (Thrown e, p)
                | None \<Rightarrow>
                    (Returned (),
                     perform
                       (map (\<lambda>callback.
                               CertificatesReceived callback
                                 (Def (orElse (identityKey message) ''unknown''))
                                 (orElse (certificates message) []))
                          (onCertificatesReceivedCallbacks p))
                       p))))"

definition processGeneralMessage :: "Env \<Rightarrow> AuthMessage \<Rightarrow> Peer \<Rightarrow> unit completion \<times> Peer" where
  "processGeneralMessage env message p =
     (if nullish (yourNonce message) then
        (Thrown (''Invalid message: Missing 'yourNonce' from '' @
                 template (identityKey message)), p)
      else if nullish (signature message) then
        (Thrown (''Invalid message: Missing 'signature' from '' @
                 template (identityKey message)), p)
      else if nullish (nonce message) then
        (Thrown (''Invalid message: Missing 'nonce' from '' @
                 template (identityKey message)), p)
      else if nullish (payload message) then
        (Thrown (''Invalid message: Missing 'payload' from '' @
                 template (identityKey message)), p)
      else if \<not> verifyNonce env (yourNonce message) then
        (Thrown (''Unable to verify nonce for general message from: '' @
                 template (identityKey message)), p)
      else
        (case getSessionFor (yourNonce message) (sessionManager p) of
           None \<Rightarrow>
             (Thrown (''Peer session not found for peer: '' @
                      template (identityKey message)), p)
         | Some peerSession \<Rightarrow>
             if nullish (sessionNonce peerSession) then
               (Thrown (''Invalid peer session: Missing sessionNonce for peer: '' @
                        template (identityKey message)), p)
             else if nullish (peerIdentityKey peerSession) then
               (Thrown (''Invalid peer session: Missing peerIdentityKey for peer: '' @
                        template (identityKey message)), p)
             else if \<not> verifySignature env
                         (orElse (payload message) [])
                         (orElse (signature message) [])
                         authProtocolID
                         (template (nonce message) @ '' '' @
                          template (sessionNonce peerSession))
                         (template (peerIdentityKey peerSession))
             then
               (Thrown (''Invalid signature in generalMessage from '' @
                        template (peerIdentityKey peerSession)), p)
             else if \<not> nullish (identityKey message) then
               (let p1 = p\<lparr>lastInteractedWithPeer := identityKey message\<rparr>
                in (Returned (),
                    perform
                      (concat
                         (map (\<lambda>callback.
                                 if \<not> nullish (payload message)
                                 then [GeneralMessageReceived callback (identityKey message)
                                         (orElse (payload message) [])]
                                 else [])
                            (onGeneralMessageReceivedCallbacks p1)))
                      p1))
             else (Thrown ''Invalid message: Missing identityKey'', p)))"

subsection \<open>The dispatcher\<close>

definition handleIncomingMessage :: "Env \<Rightarrow> AuthMessage \<Rightarrow> Peer \<Rightarrow> unit completion \<times> Peer" where
  "handleIncomingMessage env message p =
     (if version message = Undefined \<or> version message = Null
         \<or> trimIsEmpty (version message) \<or> version message \<noteq> Def AUTH_VERSION
      then
        (Returned (),
         perform
           [ConsoleError (''Invalid message auth version! Received: '' @
                          orElse (version message) ''unknown'' @ '', expected: '' @
                          AUTH_VERSION)]
           p)
      else if messageType message = Def ''initialRequest'' then
        processInitialRequest env message p
      else if messageType message = Def ''initialResponse'' then
        processInitialResponse env message p
      else if messageType message = Def ''certificateRequest'' then
        processCertificateRequest env message p
      else if messageType message = Def ''certificateResponse'' then
        processCertificateResponse env message p
      else if messageType message = Def ''general'' then
        processGeneralMessage env message p
      else
        (Returned (),
         perform
           [ConsoleError (''Unknown message type of '' @ template (messageType message) @
                          '' from '' @ orElse (identityKey message) ''unknown'')]
           p))"

text \<open>
  The handler the constructor gives to \<open>transport.onData\<close>: an error thrown by
  the dispatcher is caught and written to the console.
\<close>

definition onData :: "Env \<Rightarrow> AuthMessage \<Rightarrow> Peer \<Rightarrow> unit completion \<times> Peer" where
  "onData env message p =
     (case handleIncomingMessage env message p of
        (Thrown e, p1) \<Rightarrow>
          (Returned (), perform [ConsoleError (''Error handling incoming message: '' @ e)] p1)
      | (c, p1) \<Rightarrow> (c, p1))"

subsection \<open>The constructor\<close>

definition newPeer :: "RequestedCertificateSet option \<Rightarrow> Peer" where
  "newPeer certificatesToRequest' =
     \<lparr>sessionManager = [],
      certificatesToRequest =
        (case certificatesToRequest' of
           None \<Rightarrow> emptyRequestedCertificateSet | Some r \<Rightarrow> r),
      onGeneralMessageReceivedCallbacks = [],
      onCertificatesReceivedCallbacks = [],
      onCertificateRequestReceivedCallbacks = [],
      onInitialResponseReceivedCallbacks = [],
      callbackIdCounter = 0,
      autoPersistLastSession = True,
      lastInteractedWithPeer = Undefined,
      waits = [], effects = [], noncesMinted = 0, randomDrawn = 0\<rparr>"

section \<open>Base64\<close>

text \<open>
  \<open>Utils.toArray(_, 'base64')\<close> is not among the sources; the spec calls it
  base64-decode. The Peer takes the decoder from its collaborators; the one
  modelled here serves where a concrete decoder is needed.
\<close>

text \<open>Modelled from the spec: the alphabet of base64 (the decoder is missing).\<close>

definition base64Chars :: string where
  "base64Chars = ''ABCDEFGHIJKLMNOPQRSTUVWXYZabcdefghijklmnopqrstuvwxyz0123456789+/''"

fun indexOf :: "char \<Rightarrow> string \<Rightarrow> nat option" where
  "indexOf c [] = None"
| "indexOf c (x # xs) =
     (if c = x then Some 0 else (case indexOf c xs of None \<Rightarrow> None | Some i \<Rightarrow> Some (Suc i)))"

text \<open>
  Modelled from the spec: the six-bit values of a base64 string (the decoder is
  missing). Characters outside the alphabet, the padding \<open>=\<close> among them,
  carry no bits.
\<close>

definition sextets :: "string \<Rightarrow> nat list" where
  "sextets s = List.map_filter (\<lambda>c. indexOf c base64Chars) s"

text \<open>
  Modelled from the spec: the bytes of a sequence of six-bit values (the decoder
  is missing). Four values give three bytes; a final group of three or two
  values gives two bytes or one.
\<close>

fun bytesOfSextets :: "nat list \<Rightarrow> nat list" where
  "bytesOfSextets (a # b # c # d # rest) =
     (a * 4 + b div 16) # ((b mod 16) * 16 + c div 4) # ((c mod 4) * 64 + d) #
     bytesOfSextets rest"
| "bytesOfSextets [a, b, c] = [a * 4 + b div 16, (b mod 16) * 16 + c div 4]"
| "bytesOfSextets [a, b] = [a * 4 + b div 16]"
| "bytesOfSextets [a] = []"
| "bytesOfSextets [] = []"

text \<open>
  Modelled from the spec: base64-decode, for \<open>Utils.toArray(_, 'base64')\<close>
  (missing from the sources).
\<close>

definition base64Decode :: "string \<Rightarrow> nat list" where
  "base64Decode s = bytesOfSextets (sextets s)"

section \<open>A concrete setting\<close>

text \<open>
  Collaborators to run the Peer with: the wallet mints nonces of the letter
  \<open>A\<close> and recognises them, a signature is the signed data itself, the
  transport delivers, and the certificate helpers find nothing and accept.
\<close>

definition exampleEnv :: Env where
  "exampleEnv =
     \<lparr>createNonce = (\<lambda>n. ''AAAA'' @ replicate n CHR ''A''),
      verifyNonce =
        (\<lambda>x. case x of Def s \<Rightarrow> s \<noteq> [] \<and> list_all (\<lambda>c. c = CHR ''A'') s | _ \<Rightarrow> False),
      createSignature = (\<lambda>data' protocolID keyID counterparty. data'),
      verifySignature = (\<lambda>data' signature' protocolID keyID counterparty. signature' = data'),
      getPublicKey = ''02aa'',
      getVerifiableCertificates = (\<lambda>r k. []),
      validateCertificates = (\<lambda>m r. None),
      send = (\<lambda>m. None),
      Random32 = (\<lambda>n. replicate 32 n),
      toBase64 = (\<lambda>bs. replicate (length bs) CHR ''r''),
      toArrayBase64 = base64Decode,
      jsonCertificates = (\<lambda>cs. map of_char (concat cs)),
      jsonRequestedCertificates = (\<lambda>r. [])\<rparr>"

definition exampleMessage :: AuthMessage where
  "exampleMessage =
     \<lparr>version = Def ''0.1'', messageType = Undefined, identityKey = Def ''02bb'',
      nonce = Undefined, initialNonce = Undefined, yourNonce = Undefined,
      certificates = Undefined, requestedCertificates = Undefined,
      payload = Undefined, signature = Undefined\<rparr>"

text \<open>A Peer that has sent its initial request to \<open>02bb\<close> and waits.\<close>

definition waitingPeer :: "RequestedCertificateSet option \<Rightarrow> Peer" where
  "waitingPeer r = snd (initiateHandshake exampleEnv (Def ''02bb'') None (newPeer r))"

text \<open>The initial response of \<open>02bb\<close> to that request, with the certificates given.\<close>

definition exampleInitialResponse :: "VerifiableCertificate list maybe \<Rightarrow> AuthMessage" where
  "exampleInitialResponse cs =
     exampleMessage
       \<lparr>messageType := Def ''initialResponse'', initialNonce := Def ''BBBB'',
        yourNonce := Def ''AAAA'', certificates := cs,
        requestedCertificates := Def emptyRequestedCertificateSet,
        signature := Def (base64Decode ''AAAABBBB'')\<rparr>"

definition exampleCertifiers :: RequestedCertificateSet where
  "exampleCertifiers = \<lparr>certifiers = [''02cc''], types = [(''T'', [''x''])]\<rparr>"

text \<open>A Peer holding an authenticated session with \<open>02bb\<close>.\<close>

definition establishedPeer :: Peer where
  "establishedPeer =
     (newPeer None)
       \<lparr>sessionManager :=
          [\<lparr>isAuthenticated = True, sessionNonce = Def ''AAAA'',
            peerNonce = Def ''BBBB'', peerIdentityKey = Def ''02bb''\<rparr>]\<rparr>"

definition exampleInitialRequest :: "string maybe \<Rightarrow> AuthMessage" where
  "exampleInitialRequest n =
     exampleMessage
       \<lparr>messageType := Def ''initialRequest'', initialNonce := n,
        requestedCertificates := Def emptyRequestedCertificateSet\<rparr>"

definition exampleGeneral :: "string maybe \<Rightarrow> string maybe \<Rightarrow> AuthMessage" where
  "exampleGeneral k n =
     exampleMessage
       \<lparr>messageType := Def ''general'', identityKey := k, nonce := Def ''cmVx'',
        yourNonce := n, payload := Def [222, 173, 190, 239],
        signature := Def [222, 173, 190, 239]\<rparr>"

text \<open>The same collaborators, but the certificates received fail validation.\<close>

definition rejectingEnv :: Env where
  "rejectingEnv =
     exampleEnv\<lparr>validateCertificates := (\<lambda>m r. Some ''Certificate validation failed'')\<rparr>"

text \<open>The collaborators of the responder \<open>02bb\<close>, whose wallet mints \<open>BBBB\<close>.\<close>

definition responderEnv :: Env where
  "responderEnv = exampleEnv\<lparr>createNonce := (\<lambda>n. ''BBBB''), getPublicKey := ''02bb''\<rparr>"

text \<open>A responder whose wallet mints the nonce \<open>QUJD\<close>, the base64 of \<open>ABC\<close>.\<close>

definition paddedNonceEnv :: Env where
  "paddedNonceEnv = exampleEnv\<lparr>createNonce := (\<lambda>n. ''QUJD'')\<rparr>"

section \<open>Unfolding and frame lemmas\<close>

lemmas peer_defs =
  handleIncomingMessage_def processInitialRequest_def processInitialResponse_def
  processCertificateRequest_def processCertificateResponse_def processGeneralMessage_def
  sendCertificateResponse_def getAuthenticatedSession_def initiateHandshake_def
  waitForInitialResponse_def listenForInitialResponse_def transportSend_def perform_def
  fireInitialResponseCallbacks_def initialResponseCallback_def resolve_def clearTimeout_def
  stopListeningForInitialResponses_def modifyWait_def mapSet_def mapDelete_def
  requestsCertifiers_def getSession_def holdsNonce_def ofPeer_def addSession_def updateSession_def
  AUTH_VERSION_def authProtocolID_def emptyRequestedCertificateSet_def
  timerFires_def timeoutCallback_def reject_def onData_def

lemmas example_defs =
  exampleEnv_def exampleMessage_def waitingPeer_def exampleInitialResponse_def
  exampleCertifiers_def newPeer_def base64Decode_def sextets_def base64Chars_def
  establishedPeer_def exampleInitialRequest_def exampleGeneral_def rejectingEnv_def
  responderEnv_def paddedNonceEnv_def Let_def trim_def isWhiteSpace_def

lemma getSessionFor_in_store: "getSessionFor k sm = Some s \<Longrightarrow> s \<in> set sm"
  by (cases k) (auto simp: getSession_def find_Some_iff split: option.splits)

lemma updateSession_stores:
  "s \<in> set sm \<Longrightarrow> sessionNonce s' = sessionNonce s \<Longrightarrow> s' \<in> set (updateSession s' sm)"
  by (force simp: updateSession_def)

lemma mapSet_member: "(k, v) \<in> set (mapSet k v kvs)"
proof (cases "k \<in> fst ` set kvs")
  case True
  then obtain v0 where "(k, v0) \<in> set kvs" by auto
  then have "(\<lambda>(k', v'). if k' = k then (k', v) else (k', v')) (k, v0)
               \<in> (\<lambda>(k', v'). if k' = k then (k', v) else (k', v')) ` set kvs"
    by (rule imageI)
  then show ?thesis using True by (simp add: mapSet_def)
next
  case False
  then show ?thesis by (simp add: mapSet_def)
qed

lemma fold_sessionManager:
  assumes "\<And>x q. sessionManager (f x q) = sessionManager q"
  shows "sessionManager (fold f xs q) = sessionManager q"
  using assms by (induction xs arbitrary: q) simp_all

lemma fireInitialResponseCallbacks_sessionManager:
  "sessionManager (fireInitialResponseCallbacks s p) = sessionManager p"
  unfolding fireInitialResponseCallbacks_def
  by (rule fold_sessionManager)
     (auto simp: initialResponseCallback_def resolve_def clearTimeout_def modifyWait_def
        stopListeningForInitialResponses_def)

lemma sendCertificateResponse_keeps_sessions:
  "set (sessionManager p) \<subseteq> set (sessionManager (snd (sendCertificateResponse env k cs p)))"
  by (auto simp: sendCertificateResponse_def getAuthenticatedSession_def initiateHandshake_def
        waitForInitialResponse_def listenForInitialResponse_def transportSend_def perform_def
        addSession_def Let_def
      split: option.splits prod.splits completion.splits sum.splits if_splits)

lemma bytesOfSextets_append:
  "length xs mod 4 = 0 \<Longrightarrow> bytesOfSextets (xs @ ys) = bytesOfSextets xs @ bytesOfSextets ys"
  by (induction xs rule: bytesOfSextets.induct) simp_all

lemma indexOf_member: "c \<in> set cs \<Longrightarrow> \<exists>i. indexOf c cs = Some i"
  by (induction cs) auto

lemma length_sextets: "set a \<subseteq> set base64Chars \<Longrightarrow> length (sextets a) = length a"
proof (induction a)
  case Nil
  then show ?case by (simp add: sextets_def map_filter_simps)
next
  case (Cons c a)
  then obtain i where "indexOf c base64Chars = Some i"
    using indexOf_member[of c base64Chars] by auto
  then show ?case using Cons by (simp add: sextets_def map_filter_simps)
qed

lemma base64Decode_append:
  assumes "set a \<subseteq> set base64Chars" and "length a mod 4 = 0"
  shows "base64Decode (a @ b) = base64Decode a @ base64Decode b"
proof -
  have "length (sextets a) mod 4 = 0"
    using assms by (simp add: length_sextets)
  then show ?thesis
    by (simp add: base64Decode_def sextets_def map_filter_def bytesOfSextets_append)
qed

text \<open>
  Once the nonce, the session lookup and the signature check have passed, the
  session with the peer's nonce and identity key, marked authenticated, is in the
  store however the rest of \<open>processInitialResponse\<close> ends.
\<close>

lemma processInitialResponse_accepts:
  assumes "yourNonce m \<noteq> Undefined" and "verifyNonce env (yourNonce m)"
    and "getSessionFor (yourNonce m) (sessionManager p) = Some s"
    and "verifySignature env
           (toArrayBase64 env (orElse (sessionNonce s) [] @ orElse (initialNonce m) []))
           (orElse (signature m) []) authProtocolID
           (orElse (sessionNonce s) [] @ '' '' @ orElse (initialNonce m) [])
           (orElse (identityKey m) [])"
  shows "s\<lparr>peerNonce := initialNonce m, peerIdentityKey := identityKey m,
            isAuthenticated := True\<rparr>
         \<in> set (sessionManager (snd (processInitialResponse env m p)))"
proof -
  let ?s = "s\<lparr>peerNonce := initialNonce m, peerIdentityKey := identityKey m,
            isAuthenticated := True\<rparr>"
  have "s \<in> set (sessionManager p)"
    using assms(3) by (rule getSessionFor_in_store)
  then have in_store: "?s \<in> set (updateSession ?s (sessionManager p))"
    by (intro updateSession_stores[of s]) simp_all
  have keep: "\<And>k cs q. sessionManager q = updateSession ?s (sessionManager p) \<Longrightarrow>
      ?s \<in> set (sessionManager (snd (sendCertificateResponse env k cs q)))"
    using in_store sendCertificateResponse_keeps_sessions by fastforce
  show ?thesis
    using assms in_store
    by (auto simp: processInitialResponse_def Let_def perform_def
          fireInitialResponseCallbacks_sessionManager
        split: option.splits intro!: keep)
qed

section \<open>The dispatcher drops what it does not know\<close>

text \<open>
  C2. An inbound message whose version is not the string \<open>0.1\<close>, or whose
  messageType is none of the five kinds, is dropped: the dispatcher returns, and
  the Peer it leaves differs from the one it found by one line on the console
  only. So the session manager and \<open>lastInteractedWithPeer\<close> are as before, no
  callback has been called, and nothing was sent. The handler registered with
  the transport behaves the same.
\<close>

theorem unknown_version_or_type_is_dropped:
  assumes "version m \<noteq> Def ''0.1''
           \<or> messageType m \<notin> {Def ''initialRequest'', Def ''initialResponse'',
                 Def ''certificateRequest'', Def ''certificateResponse'', Def ''general''}"
  shows "\<exists>line.
           handleIncomingMessage env m p =
             (Returned (), p\<lparr>effects := effects p @ [ConsoleError line]\<rparr>)
           \<and> onData env m p = (Returned (), p\<lparr>effects := effects p @ [ConsoleError line]\<rparr>)
           \<and> sessionManager (snd (handleIncomingMessage env m p)) = sessionManager p
           \<and> lastInteractedWithPeer (snd (handleIncomingMessage env m p)) =
               lastInteractedWithPeer p"
  using assms
  by (auto simp: handleIncomingMessage_def onData_def perform_def AUTH_VERSION_def)

theorem unknown_version_or_type_is_dropped_witness:
  "sessionManager
     (snd (handleIncomingMessage exampleEnv
             (exampleInitialResponse (Def [''cert''])\<lparr>version := Def ''0.2''\<rparr>)
             (waitingPeer (Some exampleCertifiers)))) =
   sessionManager (waitingPeer (Some exampleCertifiers))
   \<and> lastInteractedWithPeer
       (snd (handleIncomingMessage exampleEnv
               (exampleInitialResponse (Def [''cert''])\<lparr>version := Def ''0.2''\<rparr>)
               (waitingPeer (Some exampleCertifiers)))) =
     lastInteractedWithPeer (waitingPeer (Some exampleCertifiers))"
  using unknown_version_or_type_is_dropped
          [of "exampleInitialResponse (Def [''cert''])\<lparr>version := Def ''0.2''\<rparr>"
              exampleEnv "waitingPeer (Some exampleCertifiers)"]
  by (auto simp: exampleInitialResponse_def exampleMessage_def)

section \<open>Nonce verification comes first\<close>

text \<open>
  C3. When \<open>verifyNonce\<close> returns false for the \<open>yourNonce\<close> of an inbound
  message, each of the four processors that read \<open>yourNonce\<close>
  (\<open>processInitialResponse\<close>, \<open>processCertificateRequest\<close>,
  \<open>processCertificateResponse\<close>, \<open>processGeneralMessage\<close>) throws and leaves
  the Peer exactly as it was: no session is changed, nothing is sent and no
  callback is called. The same holds through the dispatcher. So a message of
  these kinds that had any effect passed \<open>verifyNonce\<close>.
\<close>

theorem rejected_nonce_aborts_before_any_effect:
  assumes "\<not> verifyNonce env (yourNonce m)"
  shows "(\<exists>e. processInitialResponse env m p = (Thrown e, p))
       \<and> (\<exists>e. processCertificateRequest env m p = (Thrown e, p))
       \<and> (\<exists>e. processCertificateResponse env m p = (Thrown e, p))
       \<and> (\<exists>e. processGeneralMessage env m p = (Thrown e, p))
       \<and> (version m = Def ''0.1''
            \<and> messageType m \<in> {Def ''initialResponse'', Def ''certificateRequest'',
                  Def ''certificateResponse'', Def ''general''}
          \<longrightarrow> (\<exists>e. handleIncomingMessage env m p = (Thrown e, p)))"
  using assms
  by (auto simp: processInitialResponse_def processCertificateRequest_def
        processCertificateResponse_def processGeneralMessage_def handleIncomingMessage_def
        AUTH_VERSION_def trim_def isWhiteSpace_def)

theorem rejected_nonce_aborts_before_any_effect_witness:
  "\<not> verifyNonce exampleEnv (yourNonce (exampleGeneral (Def ''02bb'') (Def ''WlpaWg=='')))
   \<and> (\<exists>e. processGeneralMessage exampleEnv (exampleGeneral (Def ''02bb'') (Def ''WlpaWg==''))
              establishedPeer = (Thrown e, establishedPeer))"
proof -
  have h: "\<not> verifyNonce exampleEnv (yourNonce (exampleGeneral (Def ''02bb'') (Def ''WlpaWg=='')))"
    by (simp add: exampleEnv_def exampleGeneral_def exampleMessage_def)
  from rejected_nonce_aborts_before_any_effect [OF h, of establishedPeer]
  show ?thesis using h by blast
qed

section \<open>A general message without an identity key\<close>

text \<open>
  C10. A general message whose \<open>identityKey\<close> is undefined or null, with
  \<open>yourNonce\<close>, \<open>signature\<close>, \<open>nonce\<close> and \<open>payload\<close> present, a
  \<open>yourNonce\<close> that verifies, a session found for it that has a
  \<open>sessionNonce\<close> and a \<open>peerIdentityKey\<close>, and a signature that verifies
  under that \<open>peerIdentityKey\<close>, makes \<open>processGeneralMessage\<close> throw
  \<open>Invalid message: Missing identityKey\<close>. The Peer is left as it was: in
  particular \<open>lastInteractedWithPeer\<close> is not updated and no general-message
  callback is called.
\<close>

theorem general_message_without_identityKey_is_rejected:
  assumes "nullish (identityKey m)"
    and "\<not> nullish (yourNonce m)" and "\<not> nullish (signature m)"
    and "\<not> nullish (nonce m)" and "\<not> nullish (payload m)"
    and "verifyNonce env (yourNonce m)"
    and "getSessionFor (yourNonce m) (sessionManager p) = Some s"
    and "\<not> nullish (sessionNonce s)" and "\<not> nullish (peerIdentityKey s)"
    and "verifySignature env (orElse (payload m) []) (orElse (signature m) []) authProtocolID
           (template (nonce m) @ '' '' @ template (sessionNonce s))
           (template (peerIdentityKey s))"
  shows "processGeneralMessage env m p = (Thrown ''Invalid message: Missing identityKey'', p)
         \<and> lastInteractedWithPeer (snd (processGeneralMessage env m p)) =
             lastInteractedWithPeer p
         \<and> effects (snd (processGeneralMessage env m p)) = effects p"
  using assms by (simp add: processGeneralMessage_def)

theorem general_message_without_identityKey_is_rejected_witness:
  "processGeneralMessage exampleEnv (exampleGeneral Undefined (Def ''AAAA''))
     (establishedPeer\<lparr>onGeneralMessageReceivedCallbacks := [0]\<rparr>) =
   (Thrown ''Invalid message: Missing identityKey'',
    establishedPeer\<lparr>onGeneralMessageReceivedCallbacks := [0]\<rparr>)"
proof -
  let ?s = "\<lparr>isAuthenticated = True, sessionNonce = Def ''AAAA'',
             peerNonce = Def ''BBBB'', peerIdentityKey = Def ''02bb''\<rparr>"
  have found: "getSessionFor (yourNonce (exampleGeneral Undefined (Def ''AAAA'')))
                 (sessionManager (establishedPeer\<lparr>onGeneralMessageReceivedCallbacks := [0]\<rparr>))
               = Some ?s"
    by (simp add: exampleGeneral_def exampleMessage_def establishedPeer_def getSession_def
          holdsNonce_def ofPeer_def)
  show ?thesis
    using general_message_without_identityKey_is_rejected
            [of "exampleGeneral Undefined (Def ''AAAA'')" exampleEnv
                "establishedPeer\<lparr>onGeneralMessageReceivedCallbacks := [0]\<rparr>" ?s, OF _ _ _ _ _ _ found]
    by (simp add: exampleGeneral_def exampleMessage_def exampleEnv_def)
qed

section \<open>A response whose certificates fail validation\<close>

text \<open>
  C9. \<open>processInitialResponse\<close> is not atomic with respect to certificate
  validation. For an initial response that passes the nonce check, the session
  lookup and the signature check, with certificates requested by this Peer and
  present in the message: if \<open>validateCertificates\<close> raises, the processor
  throws that error after \<open>updateSession\<close> has stored the session with the
  peer's nonce and identity key and \<open>isAuthenticated = true\<close>. The Peer differs
  from the one before in its session manager only, so neither the
  certificates-received callbacks nor the initial-response callbacks were called,
  and \<open>lastInteractedWithPeer\<close> is unchanged.
\<close>

theorem failed_validation_leaves_session_authenticated:
  assumes "yourNonce m \<noteq> Undefined" and "verifyNonce env (yourNonce m)"
    and "getSessionFor (yourNonce m) (sessionManager p) = Some s"
    and "verifySignature env
           (toArrayBase64 env (orElse (sessionNonce s) [] @ orElse (initialNonce m) []))
           (orElse (signature m) []) authProtocolID
           (orElse (sessionNonce s) [] @ '' '' @ orElse (initialNonce m) [])
           (orElse (identityKey m) [])"
    and "0 < length (certifiers (certificatesToRequest p))"
    and "0 < length (orElse (certificates m) [])"
    and "validateCertificates env m (certificatesToRequest p) = Some e"
    and "s' = s\<lparr>peerNonce := initialNonce m, peerIdentityKey := identityKey m,
                   isAuthenticated := True\<rparr>"
  shows "processInitialResponse env m p =
           (Thrown e, p\<lparr>sessionManager := updateSession s' (sessionManager p)\<rparr>)
         \<and> s' \<in> set (updateSession s' (sessionManager p))
         \<and> isAuthenticated s'"
proof -
  have "s \<in> set (sessionManager p)"
    using assms(3) by (rule getSessionFor_in_store)
  then have "s' \<in> set (updateSession s' (sessionManager p))"
    using assms(8) by (intro updateSession_stores[of s]) simp_all
  moreover have "processInitialResponse env m p =
           (Thrown e, p\<lparr>sessionManager := updateSession s' (sessionManager p)\<rparr>)"
    using assms by (simp add: processInitialResponse_def Let_def)
  ultimately show ?thesis using assms(8) by simp
qed

theorem failed_validation_leaves_session_authenticated_witness:
  "processInitialResponse rejectingEnv (exampleInitialResponse (Def [''cert'']))
     (waitingPeer (Some exampleCertifiers)) =
   (Thrown ''Certificate validation failed'',
    (waitingPeer (Some exampleCertifiers))
      \<lparr>sessionManager :=
         [\<lparr>isAuthenticated = True, sessionNonce = Def ''AAAA'',
           peerNonce = Def ''BBBB'', peerIdentityKey = Def ''02bb''\<rparr>]\<rparr>)"
proof -
  let ?s = "\<lparr>isAuthenticated = False, sessionNonce = Def ''AAAA'',
             peerNonce = Undefined, peerIdentityKey = Def ''02bb''\<rparr>"
  let ?s' = "\<lparr>isAuthenticated = True, sessionNonce = Def ''AAAA'',
             peerNonce = Def ''BBBB'', peerIdentityKey = Def ''02bb''\<rparr>"
  have store: "sessionManager (waitingPeer (Some exampleCertifiers)) = [?s]"
    by (simp add: peer_defs example_defs)
  have requested: "certificatesToRequest (waitingPeer (Some exampleCertifiers)) = exampleCertifiers"
    by (simp add: peer_defs example_defs)
  have found: "getSessionFor (yourNonce (exampleInitialResponse (Def [''cert''])))
                 (sessionManager (waitingPeer (Some exampleCertifiers))) = Some ?s"
    by (simp add: store exampleInitialResponse_def exampleMessage_def getSession_def
          holdsNonce_def ofPeer_def)
  have updated: "updateSession ?s' [?s] = [?s']"
    by (simp add: updateSession_def)
  let ?m = "exampleInitialResponse (Def [''cert''])"
  let ?p = "waitingPeer (Some exampleCertifiers)"
  have a1: "yourNonce ?m \<noteq> Undefined"
    by (simp add: exampleInitialResponse_def exampleMessage_def)
  have a2: "verifyNonce rejectingEnv (yourNonce ?m)"
    by (simp add: exampleInitialResponse_def exampleMessage_def rejectingEnv_def exampleEnv_def)
  have a4: "verifySignature rejectingEnv
           (toArrayBase64 rejectingEnv (orElse (sessionNonce ?s) [] @ orElse (initialNonce ?m) []))
           (orElse (signature ?m) []) authProtocolID
           (orElse (sessionNonce ?s) [] @ '' '' @ orElse (initialNonce ?m) [])
           (orElse (identityKey ?m) [])"
    by (simp add: exampleInitialResponse_def exampleMessage_def rejectingEnv_def exampleEnv_def)
  have a5: "0 < length (certifiers (certificatesToRequest ?p))"
    unfolding requested by (simp add: exampleCertifiers_def)
  have a6: "0 < length (orElse (certificates ?m) [])"
    by (simp add: exampleInitialResponse_def exampleMessage_def)
  have a7: "validateCertificates rejectingEnv ?m (certificatesToRequest ?p) =
              Some ''Certificate validation failed''"
    by (simp add: rejectingEnv_def)
  have a8: "?s' = ?s\<lparr>peerNonce := initialNonce ?m, peerIdentityKey := identityKey ?m,
                       isAuthenticated := True\<rparr>"
    by (simp add: exampleInitialResponse_def exampleMessage_def)
  from failed_validation_leaves_session_authenticated [OF a1 a2 found a4 a5 a6 a7 a8]
  show ?thesis by (simp add: store updated)
qed

section \<open>The wait for the initial response\<close>

text \<open>
  C7. \<open>waitForInitialResponse\<close> registers a listener for the session nonce
  under a fresh callback ID and arms a timer with \<open>maxWaitTime\<close> (10000 by
  default); the promise it returns is pending. In any later state in which this
  wait is still as it was set up:
  when the timer fires (no initial response has arrived within
  \<open>maxWaitTime\<close>), the promise is rejected with the error
  \<open>Initial response timed out.\<close> and the listener is no longer in the
  callback map; when instead the listener's callback is called, the timer is
  cleared, the listener is no longer in the callback map, and the promise is
  resolved with the session nonce.
\<close>

theorem wait_times_out_or_resolves:
  assumes "waitForInitialResponse n t p = (w, p1)"
    and "w < length (waits q)" and "waits q ! w = waits p1 ! w"
  shows "(callbackIdCounter p, n, w) \<in> set (onInitialResponseReceivedCallbacks p1)
       \<and> waits p1 ! w =
           \<lparr>waitCallbackID = callbackIdCounter p,
            waitTimer = Armed (case t of None \<Rightarrow> 10000 | Some d \<Rightarrow> d),
            waitPromise = Pending\<rparr>
       \<and> waitPromise (waits (timerFires w q) ! w) = Rejected ''Initial response timed out.''
       \<and> waitTimer (waits (timerFires w q) ! w) = Fired
       \<and> callbackIdCounter p \<notin> fst ` set (onInitialResponseReceivedCallbacks (timerFires w q))
       \<and> waitPromise (waits (initialResponseCallback w (callbackIdCounter p) n q) ! w) =
           Resolved n
       \<and> waitTimer (waits (initialResponseCallback w (callbackIdCounter p) n q) ! w) = Cleared
       \<and> callbackIdCounter p \<notin>
           fst ` set (onInitialResponseReceivedCallbacks
                        (initialResponseCallback w (callbackIdCounter p) n q))"
proof -
  have w: "w = length (waits p)"
    using assms(1) by (simp add: waitForInitialResponse_def listenForInitialResponse_def Let_def)
  have p1: "waits p1 ! w =
           \<lparr>waitCallbackID = callbackIdCounter p,
            waitTimer = Armed (case t of None \<Rightarrow> 10000 | Some d \<Rightarrow> d),
            waitPromise = Pending\<rparr>"
    using assms(1) by (auto simp: waitForInitialResponse_def listenForInitialResponse_def Let_def)
  have e: "(callbackIdCounter p, n, w) \<in> set (onInitialResponseReceivedCallbacks p1)"
    using assms(1) w
    by (auto simp: waitForInitialResponse_def listenForInitialResponse_def Let_def mapSet_member)
  have q: "waits q ! w =
           \<lparr>waitCallbackID = callbackIdCounter p,
            waitTimer = Armed (case t of None \<Rightarrow> 10000 | Some d \<Rightarrow> d),
            waitPromise = Pending\<rparr>"
    using p1 assms(3) by simp
  have t: "waitPromise (waits (timerFires w q) ! w) = Rejected ''Initial response timed out.''
       \<and> waitTimer (waits (timerFires w q) ! w) = Fired
       \<and> callbackIdCounter p \<notin> fst ` set (onInitialResponseReceivedCallbacks (timerFires w q))"
    using q assms(2)
    by (auto simp: timerFires_def timeoutCallback_def reject_def modifyWait_def
        stopListeningForInitialResponses_def mapDelete_def)
  have c: "waitPromise (waits (initialResponseCallback w (callbackIdCounter p) n q) ! w) =
             Resolved n
       \<and> waitTimer (waits (initialResponseCallback w (callbackIdCounter p) n q) ! w) = Cleared
       \<and> callbackIdCounter p \<notin>
           fst ` set (onInitialResponseReceivedCallbacks
                        (initialResponseCallback w (callbackIdCounter p) n q))"
    using q assms(2)
    by (auto simp: initialResponseCallback_def resolve_def clearTimeout_def modifyWait_def
        stopListeningForInitialResponses_def mapDelete_def)
  show ?thesis using p1 e t c by simp
qed

theorem wait_times_out_or_resolves_witness:
  "waitPromise (waits (timerFires 0 (waitingPeer None)) ! 0) =
     Rejected ''Initial response timed out.''
   \<and> onInitialResponseReceivedCallbacks (timerFires 0 (waitingPeer None)) = []
   \<and> waitPromise (waits (initialResponseCallback 0 0 ''AAAA'' (waitingPeer None)) ! 0) =
       Resolved ''AAAA''
   \<and> waitTimer (waits (initialResponseCallback 0 0 ''AAAA'' (waitingPeer None)) ! 0) = Cleared"
proof -
  let ?p = "(newPeer None)
      \<lparr>noncesMinted := 1,
       sessionManager :=
         [\<lparr>isAuthenticated = False, sessionNonce = Def ''AAAA'',
           peerNonce = Undefined, peerIdentityKey = Def ''02bb''\<rparr>],
       effects :=
         [Sent (exampleMessage
                  \<lparr>messageType := Def ''initialRequest'', identityKey := Def ''02aa'',
                   initialNonce := Def ''AAAA'',
                   requestedCertificates := Def emptyRequestedCertificateSet\<rparr>)]\<rparr>"
  have set_up: "waitForInitialResponse ''AAAA'' (Some 10000) ?p = (0, waitingPeer None)"
    by (simp add: peer_defs example_defs)
  have one: "0 < length (waits (waitingPeer None))"
    by (simp add: peer_defs example_defs)
  have only: "onInitialResponseReceivedCallbacks (timerFires 0 (waitingPeer None)) = []"
    by (simp add: peer_defs example_defs)
  from wait_times_out_or_resolves [OF set_up one refl] only
  show ?thesis by (simp add: newPeer_def)
qed

section \<open>The data under the initial-response signature\<close>

text \<open>
  C6, as amended. The responder signs, and the initiator verifies, the bytes that
  \<open>Utils.toArray(_, 'base64')\<close> gives for one string: the initiator's nonce
  followed by the responder's nonce. The two base64 strings are concatenated
  first and the result is decoded once.

  For an initial request carrying the nonce \<open>a\<close>, handled by a responder whose
  wallet mints \<open>b\<close>: the response sent carries \<open>yourNonce = a\<close>,
  \<open>initialNonce = b\<close> and the signature the wallet creates over the decoding of
  \<open>a @ b\<close>, with key ID \<open>a b\<close>. For an initial response carrying
  \<open>initialNonce = b\<close> that reaches a session with \<open>sessionNonce = a\<close>: the
  processor asks the wallet to verify the signature over the decoding of
  \<open>a @ b\<close>, with key ID \<open>a b\<close>; if the wallet accepts, the session is stored
  authenticated, and if not, the processor throws and changes nothing. So both
  sides hold the same bytes whenever they hold the same two nonces and decode
  alike. With the base64 decoding modelled above, these bytes are the decoding
  of \<open>a\<close> followed by the decoding of \<open>b\<close> when \<open>a\<close> consists of
  characters of the base64 alphabet and their number is a multiple of four.
\<close>

theorem initial_response_signature_data:
  assumes "initialNonce m = Def a" and "b = createNonce env (noncesMinted p)"
    and "processInitialRequest env m p = (Returned (), p')"
    and "yourNonce r \<noteq> Undefined" and "verifyNonce env' (yourNonce r)"
    and "getSessionFor (yourNonce r) (sessionManager q) = Some s"
    and "sessionNonce s = Def a" and "initialNonce r = Def b"
  shows "(\<exists>x. last (effects p') = Sent x \<and> yourNonce x = Def a \<and> initialNonce x = Def b
            \<and> signature x =
                Def (createSignature env (toArrayBase64 env (a @ b)) authProtocolID
                       (a @ '' '' @ b) (orElse (identityKey m) ''unknown'')))
       \<and> (if verifySignature env' (toArrayBase64 env' (a @ b)) (orElse (signature r) [])
               authProtocolID (a @ '' '' @ b) (orElse (identityKey r) [])
           then s\<lparr>peerNonce := Def b, peerIdentityKey := identityKey r,
                  isAuthenticated := True\<rparr>
                \<in> set (sessionManager (snd (processInitialResponse env' r q)))
           else processInitialResponse env' r q =
                  (Thrown (''Unable to verify initial response signature for peer: '' @
                           orElse (identityKey r) ''unknown''), q))
       \<and> (toArrayBase64 env = base64Decode \<and> set a \<subseteq> set base64Chars
            \<and> length a mod 4 = 0
          \<longrightarrow> toArrayBase64 env (a @ b) = base64Decode a @ base64Decode b)"
proof -
  have 1: "\<exists>x. last (effects p') = Sent x \<and> yourNonce x = Def a \<and> initialNonce x = Def b
            \<and> signature x =
                Def (createSignature env (toArrayBase64 env (a @ b)) authProtocolID
                       (a @ '' '' @ b) (orElse (identityKey m) ''unknown''))"
    using assms(1,2,3)
    by (auto simp: processInitialRequest_def Let_def transportSend_def perform_def
        split: if_splits option.splits prod.splits)
  have 2: "verifySignature env' (toArrayBase64 env' (a @ b)) (orElse (signature r) [])
               authProtocolID (a @ '' '' @ b) (orElse (identityKey r) []) \<Longrightarrow>
     s\<lparr>peerNonce := Def b, peerIdentityKey := identityKey r, isAuthenticated := True\<rparr>
       \<in> set (sessionManager (snd (processInitialResponse env' r q)))"
    using assms(4-8) processInitialResponse_accepts[of r env' q s]
    by simp
  have 3: "\<not> verifySignature env' (toArrayBase64 env' (a @ b)) (orElse (signature r) [])
               authProtocolID (a @ '' '' @ b) (orElse (identityKey r) []) \<Longrightarrow>
     processInitialResponse env' r q =
                  (Thrown (''Unable to verify initial response signature for peer: '' @
                           orElse (identityKey r) ''unknown''), q)"
    using assms(4-8)
    by (simp add: processInitialResponse_def)
  have 4: "toArrayBase64 env = base64Decode \<and> set a \<subseteq> set base64Chars
            \<and> length a mod 4 = 0
          \<longrightarrow> toArrayBase64 env (a @ b) = base64Decode a @ base64Decode b"
    by (simp add: base64Decode_append)
  show ?thesis using 1 2 3 4 by simp
qed

theorem initial_response_signature_data_witness:
  "(\<exists>x. last (effects (snd (processInitialRequest responderEnv
                               (exampleInitialRequest (Def ''AAAA'')) (newPeer None)))) = Sent x
        \<and> yourNonce x = Def ''AAAA'' \<and> initialNonce x = Def ''BBBB''
        \<and> signature x =
            Def (createSignature responderEnv (toArrayBase64 responderEnv (''AAAA'' @ ''BBBB''))
                   authProtocolID (''AAAA'' @ '' '' @ ''BBBB'') ''02bb''))
   \<and> \<lparr>isAuthenticated = True, sessionNonce = Def ''AAAA'', peerNonce = Def ''BBBB'',
       peerIdentityKey = Def ''02bb''\<rparr>
     \<in> set (sessionManager
              (snd (processInitialResponse exampleEnv (exampleInitialResponse Undefined)
                      (waitingPeer None))))
   \<and> toArrayBase64 responderEnv (''AAAA'' @ ''BBBB'') =
       base64Decode ''AAAA'' @ base64Decode ''BBBB''"
proof -
  let ?m = "exampleInitialRequest (Def ''AAAA'')"
  let ?r = "exampleInitialResponse Undefined"
  let ?s = "\<lparr>isAuthenticated = False, sessionNonce = Def ''AAAA'',
             peerNonce = Undefined, peerIdentityKey = Def ''02bb''\<rparr>"
  let ?p' = "snd (processInitialRequest responderEnv ?m (newPeer None))"
  have a1: "initialNonce ?m = Def ''AAAA''"
    by (simp add: exampleInitialRequest_def exampleMessage_def)
  have a2: "''BBBB'' = createNonce responderEnv (noncesMinted (newPeer None))"
    by (simp add: responderEnv_def)
  have a3: "processInitialRequest responderEnv ?m (newPeer None) = (Returned (), ?p')"
    by (simp add: peer_defs example_defs)
  have a4: "yourNonce ?r \<noteq> Undefined"
    by (simp add: exampleInitialResponse_def exampleMessage_def)
  have a5: "verifyNonce exampleEnv (yourNonce ?r)"
    by (simp add: exampleInitialResponse_def exampleMessage_def exampleEnv_def)
  have a6: "getSessionFor (yourNonce ?r) (sessionManager (waitingPeer None)) = Some ?s"
    by (simp add: peer_defs example_defs)
  have a7: "sessionNonce ?s = Def ''AAAA''"
    by simp
  have a8: "initialNonce ?r = Def ''BBBB''"
    by (simp add: exampleInitialResponse_def exampleMessage_def)
  have a9: "toArrayBase64 responderEnv = base64Decode \<and> set ''AAAA'' \<subseteq> set base64Chars
              \<and> length ''AAAA'' mod 4 = 0"
    by (simp add: responderEnv_def exampleEnv_def base64Chars_def)
  have accepted: "verifySignature exampleEnv (toArrayBase64 exampleEnv (''AAAA'' @ ''BBBB''))
                    (orElse (signature ?r) []) authProtocolID (''AAAA'' @ '' '' @ ''BBBB'')
                    (orElse (identityKey ?r) [])"
    by (simp add: exampleEnv_def exampleInitialResponse_def exampleMessage_def)
  have stored: "?s\<lparr>peerNonce := Def ''BBBB'', peerIdentityKey := identityKey ?r,
                     isAuthenticated := True\<rparr> =
                \<lparr>isAuthenticated = True, sessionNonce = Def ''AAAA'', peerNonce = Def ''BBBB'',
                 peerIdentityKey = Def ''02bb''\<rparr>"
    by (simp add: exampleInitialResponse_def exampleMessage_def)
  have sender: "orElse (identityKey ?m) ''unknown'' = ''02bb''"
    by (simp add: exampleInitialRequest_def exampleMessage_def)
  from initial_response_signature_data [OF a1 a2 a3 a4 a5 a6 a7 a8] accepted a9
  show ?thesis
    unfolding stored sender by auto
qed

text \<open>
  C6 as stated fails: the bytes signed are not the decoding of the one nonce
  followed by the decoding of the other. With the decoder modelled above, a
  request with the nonce \<open>QQ==\<close> (the byte 65) is answered by a responder that
  minted \<open>QUJD\<close> (the bytes 65, 66, 67) with a signature over the decoding of
  \<open>QQ==QUJD\<close>, the bytes 65, 4, 20, 36, and not over 65, 65, 66, 67. The
  wallet of this setting returns the data it signs as the signature.
\<close>

theorem signed_data_is_not_concatenation_of_decodings:
  "effects (snd (processInitialRequest paddedNonceEnv (exampleInitialRequest (Def ''QQ==''))
                   (newPeer None))) =
     [Sent \<lparr>version = Def ''0.1'', messageType = Def ''initialResponse'',
            identityKey = Def ''02aa'', nonce = Undefined, initialNonce = Def ''QUJD'',
            yourNonce = Def ''QQ=='', certificates = Undefined,
            requestedCertificates = Def emptyRequestedCertificateSet,
            payload = Undefined, signature = Def [65, 4, 20, 36]\<rparr>]
   \<and> createSignature paddedNonceEnv
         (toArrayBase64 paddedNonceEnv ''QQ=='' @ toArrayBase64 paddedNonceEnv ''QUJD'')
         authProtocolID ''QQ== QUJD'' ''02bb'' = [65, 65, 66, 67]"
  by (simp add: peer_defs example_defs)

section \<open>Inputs on which the code departs from the specification\<close>

text \<open>
  C1. The initiator has requested no certificates, has sent its initial request
  and waits, with the listener \<open>(0, AAAA)\<close> registered for the session nonce
  \<open>AAAA\<close>. The initial response of the peer passes the nonce check, the
  session lookup and the signature check. The processor stores the session with
  the peer's nonce and identity key, authenticated, and returns: the listener
  registered for \<open>AAAA\<close> is still in the map, the timer is still armed and
  the promise still pending, so the callback was not called. When certificates
  were requested and the response carries one, the same callback is called.
\<close>

theorem initial_response_without_certificates_calls_no_listener:
  "handleIncomingMessage exampleEnv (exampleInitialResponse Undefined) (waitingPeer None) =
     (Returned (),
      (waitingPeer None)
        \<lparr>sessionManager :=
           [\<lparr>isAuthenticated = True, sessionNonce = Def ''AAAA'',
             peerNonce = Def ''BBBB'', peerIdentityKey = Def ''02bb''\<rparr>]\<rparr>)
   \<and> onInitialResponseReceivedCallbacks (waitingPeer None) = [(0, ''AAAA'', 0)]
   \<and> waits (waitingPeer None) =
       [\<lparr>waitCallbackID = 0, waitTimer = Armed 10000, waitPromise = Pending\<rparr>]
   \<and> waits (snd (handleIncomingMessage exampleEnv (exampleInitialResponse (Def [''cert'']))
                   (waitingPeer (Some exampleCertifiers)))) =
       [\<lparr>waitCallbackID = 0, waitTimer = Cleared, waitPromise = Resolved ''AAAA''\<rparr>]"
  by (simp add: peer_defs example_defs)

text \<open>
  C4. An initial request without \<open>initialNonce\<close> passes the check of required
  fields, and the session stored for it is authenticated with no \<open>peerNonce\<close>.
\<close>

theorem initial_request_without_nonce_stores_authenticated_session:
  "sessionManager
     (snd (handleIncomingMessage exampleEnv (exampleInitialRequest Undefined) (newPeer None))) =
   [\<lparr>isAuthenticated = True, sessionNonce = Def ''AAAA'', peerNonce = Undefined,
     peerIdentityKey = Def ''02bb''\<rparr>]"
  by (simp add: peer_defs example_defs)

text \<open>
  C5. An initial request without \<open>initialNonce\<close> is not rejected: the
  processor returns, a session has been created and an initial response has been
  sent. The same request with the empty string for \<open>initialNonce\<close> is rejected
  and leaves the Peer as it was.
\<close>

theorem initial_request_without_nonce_is_answered:
  "handleIncomingMessage exampleEnv (exampleInitialRequest Undefined) (newPeer None) =
     (Returned (),
      (newPeer None)
        \<lparr>sessionManager :=
           [\<lparr>isAuthenticated = True, sessionNonce = Def ''AAAA'', peerNonce = Undefined,
             peerIdentityKey = Def ''02bb''\<rparr>],
         lastInteractedWithPeer := Def ''02bb'',
         effects :=
           [Sent \<lparr>version = Def ''0.1'', messageType = Def ''initialResponse'',
                  identityKey = Def ''02aa'', nonce = Undefined, initialNonce = Def ''AAAA'',
                  yourNonce = Def ''unknown'', certificates = Undefined,
                  requestedCertificates = Def emptyRequestedCertificateSet,
                  payload = Undefined, signature = Def [0, 0, 0]\<rparr>],
         noncesMinted := 1\<rparr>)
   \<and> handleIncomingMessage exampleEnv (exampleInitialRequest (Def [])) (newPeer None) =
       (Thrown ''Missing required fields in initialResponse message.'', newPeer None)"
  by (simp add: peer_defs example_defs)

text \<open>
  C8. In the setting of C1 the initial response is processed successfully and
  carries the identity key \<open>02bb\<close>, but \<open>lastInteractedWithPeer\<close> stays
  undefined. When certificates were requested and the response carries one, it
  is set to \<open>02bb\<close>.
\<close>

theorem initial_response_without_certificates_keeps_last_peer:
  "fst (handleIncomingMessage exampleEnv (exampleInitialResponse Undefined)
          (waitingPeer None)) = Returned ()
   \<and> identityKey (exampleInitialResponse Undefined) = Def ''02bb''
   \<and> lastInteractedWithPeer
       (snd (handleIncomingMessage exampleEnv (exampleInitialResponse Undefined)
               (waitingPeer None))) = Undefined
   \<and> lastInteractedWithPeer
       (snd (handleIncomingMessage exampleEnv (exampleInitialResponse (Def [''cert'']))
               (waitingPeer (Some exampleCertifiers)))) = Def ''02bb''"
  by (simp add: peer_defs example_defs)

end
